theory Spec2Isabelle
  imports Main "HOL-Library.Word"
begin

section \<open>JavaScript values\<close>

text \<open>
  The assistant's tool calls and the recovered script are JSON data, read by the program
  with JavaScript's dynamic operators. A value is one of the JSON shapes, plus
  \<open>undefined\<close> for a property that is absent. An object lists each of its keys once.
  A string is the list of its code units, which the model takes below 256.

  A number is \<open>JNum w\<close> when it is an integer from \<open>-2^53\<close> to \<open>2^53 - 1\<close>, the signed
  value of the 54-bit word \<open>w\<close>: JavaScript holds these integers exactly and prints them
  digit by digit (\<open>-0\<close> is taken as \<open>0\<close>, from which the program cannot tell it). Every
  other number of JSON, a fraction or an integer of larger magnitude, is \<open>JFloat t\<close> with
  \<open>t\<close> the text that \<open>String\<close> gives it, such as \<open>1.5\<close> or \<open>1e+21\<close>; such a number is
  never zero.
\<close>

datatype jsval =
    JUndefined
  | JNull
  | JBool bool
  | JNum "54 word"
  | JFloat string
  | JStr string
  | JArr "jsval list"
  | JObj "(string \<times> jsval) list"

text \<open>What a \<open>throw\<close> carries: \<open>new Error(message)\<close>, or the TypeError of the runtime.\<close>

datatype exn = Error string | TypeError

text \<open>Truthiness, as \<open>if (v)\<close>, \<open>!v\<close>, \<open>a || b\<close>, \<open>a && b\<close> and \<open>filter(Boolean)\<close> read it.\<close>

fun truthy :: "jsval \<Rightarrow> bool" where
  "truthy JUndefined = False"
| "truthy JNull = False"
| "truthy (JBool b) = b"
| "truthy (JNum w) = (w \<noteq> 0)"
| "truthy (JFloat t) = True"
| "truthy (JStr s) = (s \<noteq> [])"
| "truthy (JArr xs) = True"
| "truthy (JObj kvs) = True"

text \<open>\<open>a || b\<close> and \<open>a ?? b\<close>.\<close>

definition js_or :: "jsval \<Rightarrow> jsval \<Rightarrow> jsval" where
  "js_or a b = (if truthy a then a else b)"

definition nullish :: "jsval \<Rightarrow> bool" where
  "nullish v = (v = JUndefined \<or> v = JNull)"

definition coalesce :: "jsval \<Rightarrow> jsval \<Rightarrow> jsval" where
  "coalesce a b = (if nullish a then b else a)"

text \<open>
  \<open>v?.k\<close>: the property \<open>k\<close> of an object, \<open>undefined\<close> when the object has no such key
  and for every other value. None of the keys the program reads is a built-in property of
  a string, number, boolean or array. The plain read \<open>v.k\<close> is the same on every value
  but \<open>null\<close> and \<open>undefined\<close>, where it throws a TypeError: the functions below test
  \<open>nullish\<close> wherever the source reads a property of a value that may be one of them.
\<close>

fun js_get :: "jsval \<Rightarrow> string \<Rightarrow> jsval" where
  "js_get (JObj kvs) k = (case map_of kvs k of Some v \<Rightarrow> v | None \<Rightarrow> JUndefined)"
| "js_get v k = JUndefined"

text \<open>\<open>Array.isArray\<close>.\<close>

fun isArray :: "jsval \<Rightarrow> bool" where
  "isArray (JArr xs) = True"
| "isArray v = False"

subsection \<open>Conversion to string\<close>

definition digit_char :: "nat \<Rightarrow> char" where
  "digit_char d = ''0123456789'' ! d"

function show_nat :: "nat \<Rightarrow> string" where
  "show_nat n = (if n < 10 then [digit_char n] else show_nat (n div 10) @ [digit_char (n mod 10)])"
  by pat_completeness auto
termination
  by (relation "measure (\<lambda>n. n)") auto

declare show_nat.simps [simp del]

definition show_int :: "int \<Rightarrow> string" where
  "show_int i = (if i < 0 then CHR ''-'' # show_nat (nat (- i)) else show_nat (nat i))"

text \<open>\<open>Array.prototype.join\<close> on strings.\<close>

fun join :: "string \<Rightarrow> string list \<Rightarrow> string" where
  "join sep [] = []"
| "join sep [x] = x"
| "join sep (x # y # ys) = x @ sep @ join sep (y # ys)"

text \<open>
  \<open>String(v)\<close>, which a template literal applies to each \<open>${v}\<close>. An array is its
  elements joined by commas, \<open>null\<close> and \<open>undefined\<close> elements giving the empty string.
\<close>

fun to_string :: "jsval \<Rightarrow> string" where
  "to_string JUndefined = ''undefined''"
| "to_string JNull = ''null''"
| "to_string (JBool b) = (if b then ''true'' else ''false'')"
| "to_string (JNum w) = show_int (sint w)"
| "to_string (JFloat t) = t"
| "to_string (JStr s) = s"
| "to_string (JArr xs) =
     join '','' (map (\<lambda>x. if x = JUndefined \<or> x = JNull then [] else to_string x) xs)"
| "to_string (JObj kvs) = ''[object Object]''"

section \<open>Scenes\<close>

text \<open>An image or a sound is an opaque handle to the program; the model numbers them.\<close>

datatype blob = Blob nat

record scene =
  sceneNumber :: jsval
  description :: jsval
  narration :: jsval
  narrationTranslated :: jsval
  imageBlob :: "blob option"
  audioBlob :: "blob option"

text \<open>\<open>initialScene\<close> (App.js): a scene of the editor from an item of the model's script.\<close>

definition initialScene :: "jsval \<Rightarrow> exn + scene" where
  "initialScene item =
     (if nullish item then Inl TypeError
      else Inr \<lparr> sceneNumber = coalesce (js_get item ''sceneNumber'') (JNum 0),
                 description = coalesce (js_get item ''description'') (JStr []),
                 narration = coalesce (js_get item ''narration'') (JStr []),
                 narrationTranslated = coalesce (js_get item ''narrationTranslated'') (JStr []),
                 imageBlob = None,
                 audioBlob = None \<rparr>)"

section \<open>The script context\<close>

text \<open>The callback of \<open>scenes.map\<close> in \<open>buildScriptContext\<close>: the block of one scene.\<close>

definition scene_block :: "scene \<Rightarrow> string" where
  "scene_block s =
     (let block = ''Scene '' @ to_string (sceneNumber s)
            @ '':\<newline>  Description: '' @ to_string (js_or (description s) (JStr ''(none)''))
            @ ''\<newline>  Narration (original): '' @ to_string (js_or (narration s) (JStr ''(none)''))
      in if truthy (narrationTranslated s)
         then block @ ''\<newline>  Narration (translated): '' @ to_string (narrationTranslated s)
         else block)"

definition buildScriptContext :: "scene list \<Rightarrow> string" where
  "buildScriptContext sceneList =
     (if sceneList = [] then []
      else ''CURRENT SCRIPT:\<newline>\<newline>'' @ join ''\<newline>\<newline>'' (map scene_block sceneList))"

section \<open>String operations of the platform\<close>

text \<open>
  \<open>String.prototype.trim\<close>: the white space among the code units below 256 is tab, line
  feed, vertical tab, form feed, carriage return, space and no-break space.
\<close>

definition is_space :: "char \<Rightarrow> bool" where
  "is_space c = (c \<in> {CHR 0x09, CHR 0x0A, CHR 0x0B, CHR 0x0C, CHR 0x0D, CHR 0x20, CHR 0xA0})"

definition trim :: "string \<Rightarrow> string" where
  "trim s = rev (dropWhile is_space (rev (dropWhile is_space s)))"

text \<open>
  The regular expression \<open>/```json\n?|\n?```/\<close> at the head of a string: the length of
  its match there, the first alternative tried first.
\<close>

definition fence :: string where
  "fence = [CHR 0x60, CHR 0x60, CHR 0x60]"

definition fence_match :: "string \<Rightarrow> nat option" where
  "fence_match s =
     (if take 7 s = fence @ ''json'' then Some (if take 1 (drop 7 s) = ''\<newline>'' then 8 else 7)
      else if take 4 s = ''\<newline>'' @ fence then Some 4
      else if take 3 s = fence then Some 3
      else None)"

text \<open>\<open>text.replace(/```json\n?|\n?```/g, '')\<close>: every match removed, left to right.\<close>

function strip_fences :: "string \<Rightarrow> string" where
  "strip_fences [] = []"
| "strip_fences (c # cs) =
     (case fence_match (c # cs) of
        Some n \<Rightarrow> strip_fences (drop n (c # cs))
      | None \<Rightarrow> c # strip_fences cs)"
  by pat_completeness auto
termination
  by (relation "measure length") (auto simp: fence_match_def split: if_splits)

text \<open>
  \<open>cleaned.match(/\[[\s\S]*\]/)\<close>: the greedy match runs from the first opening bracket
  to the last closing bracket after it.
\<close>

definition bracket_match :: "string \<Rightarrow> string option" where
  "bracket_match s =
     (let r = dropWhile (\<lambda>c. c \<noteq> CHR ''['') s;
          m = rev (dropWhile (\<lambda>c. c \<noteq> CHR '']'') (rev r))
      in if m = [] then None else Some m)"

section \<open>Batch translation\<close>

text \<open>
  \<open>translateNarrationsBatch\<close> (gemini.js). Two things come from outside the repository and
  are parameters: \<open>JSON.parse\<close> (\<open>None\<close> when it throws a SyntaxError) and the remote call
  \<open>ai.models.generateContent\<close>, whose request is built from the narrations and the language
  label and which either throws or answers with the text of the first part of the first
  candidate (\<open>None\<close> when the response has no such text). \<open>ai\<close> tells whether the API
  key is configured.
\<close>

text \<open>\<open>Array.isArray(parsed) ? parsed : [parsed]\<close>.\<close>

fun as_array :: "jsval \<Rightarrow> jsval list" where
  "as_array (JArr xs) = xs"
| "as_array v = [v]"

text \<open>\<open>typeof s === 'string' ? s : String(s ?? '')\<close>.\<close>

fun string_of_item :: "jsval \<Rightarrow> string" where
  "string_of_item (JStr x) = x"
| "string_of_item v = to_string (coalesce v (JStr []))"

definition translateNarrationsBatch ::
  "(string \<Rightarrow> jsval option) \<Rightarrow> (string list \<Rightarrow> string \<Rightarrow> exn + string option) \<Rightarrow> bool
     \<Rightarrow> string list \<Rightarrow> string \<Rightarrow> exn + string list" where
  "translateNarrationsBatch json_parse generateContent ai narrations targetLanguageLabel =
     (if \<not> ai then Inl (Error ''API key not configured'')
      else if narrations = [] then Inr []
      else case generateContent narrations targetLanguageLabel of
        Inl e \<Rightarrow> Inl e
      | Inr response \<Rightarrow>
          (let text = (case response of None \<Rightarrow> [] | Some t \<Rightarrow> trim t) in
           if text = [] then Inl (Error ''No translation response'')
           else
             (let cleaned = trim (strip_fences text) in
              case json_parse cleaned of
                None \<Rightarrow> Inl (Error ''Translation did not return valid JSON array'')
              | Some parsed \<Rightarrow>
                  (let arr = as_array parsed in
                   if length arr \<noteq> length narrations
                   then Inl (Error (''Translation returned '' @ show_nat (length arr)
                                    @ '' items, expected '' @ show_nat (length narrations)))
                   else Inr (map string_of_item arr)))))"

section \<open>The fallback extractor\<close>

text \<open>
  \<open>tryParseScriptFromText\<close> (apiService.js): \<open>None\<close> is its \<open>null\<close>, and the object it
  returns is \<open>{ scenes }\<close>. The whole body is inside \<open>try\<close>, so a SyntaxError of
  \<open>JSON.parse\<close> gives \<open>null\<close>.
\<close>

definition has_content :: "jsval \<Rightarrow> bool" where
  "has_content s = (truthy s \<and> truthy (js_or (js_get s ''description'') (js_get s ''narration'')))"

definition tryParseScriptFromText :: "(string \<Rightarrow> jsval option) \<Rightarrow> string \<Rightarrow> jsval option" where
  "tryParseScriptFromText json_parse text =
     (if trim text = [] then None
      else
        (let cleaned = trim (strip_fences text) in
         case bracket_match cleaned of
           None \<Rightarrow> None
         | Some m \<Rightarrow>
             (case json_parse m of
                None \<Rightarrow> None
              | Some parsed \<Rightarrow>
                  (let arr = as_array parsed;
                       found = filter has_content arr
                   in if found = [] then None else Some (JObj [(''scenes'', JArr found)])))))"

section \<open>The state of the application\<close>

text \<open>
  The React state of \<open>App\<close> that the chat handlers write, and the content of the assistant
  message that \<open>onChunk\<close> fills in. A queued state update is applied in the order of the
  calls; an update function that throws leaves the state as it was.
\<close>

record host =
  scenes :: "scene list"
  projectName :: "string option"
  showTranslated :: bool
  youtubeTitle :: jsval
  youtubeDescription :: jsval
  youtubeThumbnailBlob :: "blob option"
  assistantContent :: string

text \<open>\<open>xs.map(f)\<close> where \<open>f\<close> may throw: the first throw ends the map.\<close>

fun map_exn :: "('a \<Rightarrow> exn + 'b) \<Rightarrow> 'a list \<Rightarrow> exn + 'b list" where
  "map_exn f [] = Inr []"
| "map_exn f (x # xs) =
     (case f x of
        Inl e \<Rightarrow> Inl e
      | Inr y \<Rightarrow> (case map_exn f xs of Inl e \<Rightarrow> Inl e | Inr ys \<Rightarrow> Inr (y # ys)))"

text \<open>
  \<open>handleAssistantScript\<close> (App.js). \<open>newName\<close> is what \<open>getProjectName()\<close> reads off the
  clock.
\<close>

definition handleAssistantScript :: "string \<Rightarrow> jsval \<Rightarrow> host \<Rightarrow> exn + host" where
  "handleAssistantScript newName args h =
     (case js_get args ''scenes'' of
        JArr items \<Rightarrow>
          (case map_exn initialScene items of
             Inl e \<Rightarrow> Inl e
           | Inr normalized \<Rightarrow> Inr (h\<lparr>scenes := normalized, projectName := Some newName\<rparr>))
      | _ \<Rightarrow> Inr h)"

text \<open>\<open>xs[i]\<close> on an array: \<open>undefined\<close> past the end.\<close>

definition js_nth :: "jsval list \<Rightarrow> nat \<Rightarrow> jsval" where
  "js_nth xs i = (if i < length xs then xs ! i else JUndefined)"

fun elems :: "jsval \<Rightarrow> jsval list" where
  "elems (JArr xs) = xs"
| "elems v = []"

text \<open>
  The number that \<open>v - 1\<close> makes of \<open>v\<close> first. \<open>None\<close> stands for a number with
  which the loop below changes no element of the array whatever the array is: NaN, an
  infinity, a fraction (as an index it names a property that is no element) and an
  integer outside \<open>-2^53 .. 2^53 - 1\<close> (no array is that long). How a string reads as a
  number is the platform's business and a parameter, \<open>s2n\<close>; an array or object is
  converted through its string.
\<close>

fun to_number :: "(string \<Rightarrow> int option) \<Rightarrow> jsval \<Rightarrow> int option" where
  "to_number s2n JUndefined = None"
| "to_number s2n JNull = Some 0"
| "to_number s2n (JBool b) = Some (if b then 1 else 0)"
| "to_number s2n (JNum w) = Some (sint w)"
| "to_number s2n (JFloat t) = None"
| "to_number s2n (JStr s) = s2n s"
| "to_number s2n v = s2n (to_string v)"

text \<open>The \<open>for (const s of args.scenes)\<close> loop of \<open>handleChatTranslateNarrations\<close>.\<close>

fun sparse_loop :: "(string \<Rightarrow> int option) \<Rightarrow> jsval list \<Rightarrow> scene list \<Rightarrow> exn + scene list" where
  "sparse_loop s2n [] next = Inr next"
| "sparse_loop s2n (s # ss) next =
     (if nullish s then Inl TypeError
      else case to_number s2n (js_or (js_get s ''sceneNumber'') (JNum 0)) of
        None \<Rightarrow> sparse_loop s2n ss next
      | Some n \<Rightarrow>
          (let idx = n - 1 in
           if 0 \<le> idx \<and> idx < int (length next)
           then sparse_loop s2n ss
                  (next[nat idx := (next ! nat idx)
                          \<lparr>narrationTranslated := coalesce (js_get s ''narration'') (JStr [])\<rparr>])
           else sparse_loop s2n ss next))"

text \<open>
  The two update functions that \<open>handleChatTranslateNarrations\<close> (App.js) passes to
  \<open>setScenes\<close>, and the handler. It reads \<open>args.translatedNarrations\<close> first, which
  throws a TypeError when \<open>args\<close> is \<open>null\<close> or \<open>undefined\<close>. The sparse update
  function throws on an entry that is \<open>null\<close> or \<open>undefined\<close>; it is only queued by the
  handler, which goes on to \<open>setShowTranslated(true)\<close> and returns, so the throw does not
  reach \<open>sendAssistantMessage\<close>, and an update that throws changes no scene.
\<close>

definition flat_update :: "jsval list \<Rightarrow> scene list \<Rightarrow> scene list" where
  "flat_update translated prev =
     map (\<lambda>(i, s). s\<lparr>narrationTranslated := coalesce (js_nth translated i) (JStr [])\<rparr>)
       (enumerate 0 prev)"

definition sparse_update :: "(string \<Rightarrow> int option) \<Rightarrow> jsval list \<Rightarrow> scene list \<Rightarrow> exn + scene list" where
  "sparse_update s2n entries prev =
     sparse_loop s2n entries (map (\<lambda>s. s\<lparr>narrationTranslated := JStr []\<rparr>) prev)"

definition handleChatTranslateNarrations ::
  "(string \<Rightarrow> int option) \<Rightarrow> jsval \<Rightarrow> host \<Rightarrow> exn + host" where
  "handleChatTranslateNarrations s2n args h =
     (if nullish args then Inl TypeError
      else
        (let translated = js_get args ''translatedNarrations''; entries = js_get args ''scenes'' in
         if isArray translated \<and> elems translated \<noteq> []
         then Inr (h\<lparr>scenes := flat_update (elems translated) (scenes h), showTranslated := True\<rparr>)
         else if isArray entries \<and> elems entries \<noteq> []
         then Inr (h\<lparr>scenes := (case sparse_update s2n (elems entries) (scenes h) of
                                   Inl e \<Rightarrow> scenes h
                                 | Inr next \<Rightarrow> next),
                     showTranslated := True\<rparr>)
         else Inr h))"

section \<open>Sending a message and dispatching the tool calls\<close>

text \<open>
  What \<open>sendAssistantMessage\<close> (apiService.js) takes from outside the repository:
  \<open>JSON.parse\<close>; the platform's reading of a string as a number; the thumbnail generator,
  which for the call at position \<open>i\<close> of the batch either returns an image or throws
  (\<open>Inl m\<close>, with \<open>m\<close> the \<open>message\<close> of what was thrown, empty when it has none); and
  the project name read off the clock at position \<open>i\<close>.
\<close>

record env =
  json_parse :: "string \<Rightarrow> jsval option"
  string_to_number :: "string \<Rightarrow> int option"
  genThumbnail :: "nat \<Rightarrow> string \<Rightarrow> blob list \<Rightarrow> string \<Rightarrow> string + blob"
  getProjectName :: "nat \<Rightarrow> string"

text \<open>\<open>confirmText = confirmText || sentence\<close>.\<close>

definition first_text :: "string \<Rightarrow> string \<Rightarrow> string" where
  "first_text confirmText sentence = (if confirmText = [] then sentence else confirmText)"

definition script_sentence :: string where
  "script_sentence = ''I've added the script to your scene editor. You can review and edit it there, then generate images and audio for each scene.''"

definition translate_sentence :: "jsval \<Rightarrow> string" where
  "translate_sentence targetLanguage =
     ''I've translated the narrations to '' @ to_string targetLanguage
       @ ''. The narration boxes are updated.''"

definition title_sentence :: string where
  "title_sentence = ''I've generated a YouTube title. Check the YouTube metadata section.''"

definition description_sentence :: string where
  "description_sentence = ''I've generated a YouTube description. Check the YouTube metadata section.''"

definition thumbnail_sentence :: string where
  "thumbnail_sentence = ''Thumbnail generated and displayed in the YouTube metadata section.''"

definition thumbnail_failed_sentence :: "string \<Rightarrow> string" where
  "thumbnail_failed_sentence m =
     ''Thumbnail generation failed: '' @ (if m = [] then ''Unknown error'' else m) @ ''.''"

text \<open>
  \<open>args.prompt && args.prompt.trim() ? args.prompt.trim() : scriptSummary\<close>: a truthy
  prompt that is not a string has no \<open>trim\<close>, and the call throws a TypeError.
\<close>

definition thumbnail_prompt :: "jsval \<Rightarrow> string \<Rightarrow> exn + string" where
  "thumbnail_prompt p scriptSummary =
     (if \<not> truthy p then Inr scriptSummary
      else case p of
        JStr t \<Rightarrow> Inr (if trim t = [] then scriptSummary else trim t)
      | _ \<Rightarrow> Inl TypeError)"

text \<open>
  The model, the script summary and the reference images of a thumbnail call:
  \<open>tier = args.modelTier || args.imageModel || 'cheap'\<close> with the model it selects,
  \<open>buildScriptContext(scenes) || 'Short video reel.'\<close>, and
  \<open>(scenes || []).map((s) => s.imageBlob).filter(Boolean)\<close>.
\<close>

definition thumbnail_model :: "jsval \<Rightarrow> string" where
  "thumbnail_model args =
     (let tier = js_or (js_or (js_get args ''modelTier'') (js_get args ''imageModel'')) (JStr ''cheap'')
      in if tier = JStr ''expensive'' then ''gemini-3-pro-image-preview''
         else ''gemini-2.5-flash-image'')"

definition script_summary :: "scene list \<Rightarrow> string" where
  "script_summary sceneList =
     (if buildScriptContext sceneList = [] then ''Short video reel.''
      else buildScriptContext sceneList)"

definition scene_blobs :: "scene list \<Rightarrow> blob list" where
  "scene_blobs sceneList = List.map_filter imageBlob sceneList"

text \<open>
  The body of \<open>for (const fc of functionCalls)\<close>, with the handlers \<open>App\<close> passes in:
  \<open>i\<close> is the position of the call in the batch, \<open>sceneList\<close> the scenes given to
  \<open>sendAssistantMessage\<close>, and the state is \<open>confirmText\<close> with the application's state.
\<close>

definition call_step :: "env \<Rightarrow> scene list \<Rightarrow> nat \<Rightarrow> jsval \<Rightarrow> string \<times> host \<Rightarrow> exn + string \<times> host" where
  "call_step e sceneList i fc st =
     (let confirmText = fst st; h = snd st;
          name = js_get fc ''name'';
          args = js_or (js_get fc ''args'') (JObj [])
      in
      if name = JStr ''generateMovieScript'' \<and> truthy (js_get args ''scenes'') then
        (case handleAssistantScript (getProjectName e i) args h of
           Inl x \<Rightarrow> Inl x
         | Inr h' \<Rightarrow> Inr (first_text confirmText script_sentence, h'))
      else if name = JStr ''translateNarrations'' \<and> truthy (js_get args ''targetLanguage'') then
        (case (if isArray (js_get args ''translatedNarrations'')
               then handleChatTranslateNarrations (string_to_number e)
                      (JObj [(''targetLanguage'', js_get args ''targetLanguage''),
                             (''translatedNarrations'', js_get args ''translatedNarrations'')]) h
               else if isArray (js_get args ''scenes'')
               then handleChatTranslateNarrations (string_to_number e) args h
               else Inr h) of
           Inl x \<Rightarrow> Inl x
         | Inr h' \<Rightarrow>
             Inr (first_text confirmText (translate_sentence (js_get args ''targetLanguage'')), h'))
      else if name = JStr ''generateYouTubeTitle'' \<and> truthy (js_get args ''title'') then
        Inr (first_text confirmText title_sentence, h\<lparr>youtubeTitle := js_get args ''title''\<rparr>)
      else if name = JStr ''generateYouTubeDescription'' \<and> truthy (js_get args ''description'') then
        Inr (first_text confirmText description_sentence,
             h\<lparr>youtubeDescription := js_get args ''description''\<rparr>)
      else if name = JStr ''generateYouTubeThumbnail'' then
        (case thumbnail_prompt (js_get args ''prompt'') (script_summary sceneList) of
           Inl x \<Rightarrow> Inl x
         | Inr prompt \<Rightarrow>
             (case genThumbnail e i prompt (scene_blobs sceneList) (thumbnail_model args) of
                Inr b \<Rightarrow> Inr (first_text confirmText thumbnail_sentence, h\<lparr>youtubeThumbnailBlob := Some b\<rparr>)
              | Inl m \<Rightarrow> Inr (first_text confirmText (thumbnail_failed_sentence m), h)))
      else Inr (confirmText, h))"

fun call_loop :: "env \<Rightarrow> scene list \<Rightarrow> nat \<Rightarrow> jsval list \<Rightarrow> string \<times> host \<Rightarrow> exn + string \<times> host" where
  "call_loop e sceneList i [] st = Inr st"
| "call_loop e sceneList i (fc # fcs) st =
     (case call_step e sceneList i fc st of
        Inl x \<Rightarrow> Inl x
      | Inr st' \<Rightarrow> call_loop e sceneList (Suc i) fcs st')"

text \<open>
  The response of \<open>chat.sendMessage\<close>: the SDK's \<open>functionCalls\<close> getter (\<open>None\<close> when
  it gives \<open>undefined\<close>) and the parts of the first candidate, each with its text, if
  any, and its function call (\<open>undefined\<close> if none).
\<close>

record part =
  partText :: "string option"
  partFunctionCall :: jsval

record response =
  functionCalls :: "jsval list option"
  parts :: "part list"

record reply =
  replyText :: string
  functionCalled :: bool

definition response_calls :: "response \<Rightarrow> jsval list" where
  "response_calls r =
     (case functionCalls r of
        Some fcs \<Rightarrow>
          if fcs \<noteq> [] then fcs
          else filter truthy (map partFunctionCall (filter (\<lambda>p. truthy (partFunctionCall p)) (parts r)))
      | None \<Rightarrow>
          filter truthy (map partFunctionCall (filter (\<lambda>p. truthy (partFunctionCall p)) (parts r))))"

definition response_text :: "response \<Rightarrow> string" where
  "response_text r =
     trim (concat (filter (\<lambda>t. t \<noteq> []) (map (\<lambda>p. case partText p of Some t \<Rightarrow> t | None \<Rightarrow> []) (parts r))))"

text \<open>
  \<open>sendAssistantMessage\<close> from the response of the round trip on: \<open>chat\<close> tells whether
  there is a chat session, \<open>r\<close> is what \<open>chat.sendMessage\<close> returned.
\<close>

definition sendAssistantMessage ::
  "env \<Rightarrow> bool \<Rightarrow> response \<Rightarrow> scene list \<Rightarrow> host \<Rightarrow> exn + reply \<times> host" where
  "sendAssistantMessage e chat r sceneList h =
     (if \<not> chat then Inl (Error ''API key not configured'')
      else if response_calls r \<noteq> [] then
        (case call_loop e sceneList 0 (response_calls r) ([], h) of
           Inl x \<Rightarrow> Inl x
         | Inr (confirmText, h') \<Rightarrow>
             Inr (\<lparr>replyText = confirmText, functionCalled = True\<rparr>,
                  h'\<lparr>assistantContent := confirmText\<rparr>))
      else case tryParseScriptFromText (json_parse e) (response_text r) of
        Some parsed \<Rightarrow>
          (case handleAssistantScript (getProjectName e 0) parsed h of
             Inl x \<Rightarrow> Inl x
           | Inr h' \<Rightarrow>
               Inr (\<lparr>replyText = ''I've added the script to your scene editor.'',
                     functionCalled = True\<rparr>,
                    h'\<lparr>assistantContent := script_sentence\<rparr>))
      | None \<Rightarrow>
          Inr (\<lparr>replyText = response_text r, functionCalled = False\<rparr>,
               h\<lparr>assistantContent := response_text r\<rparr>))"

section \<open>Terms of the claims\<close>

text \<open>
  A sparse translation entry names the scene at position \<open>i\<close> (counted from 0) when its
  scene number, read as the loop reads it, is \<open>i + 1\<close>. Where several entries name one
  scene, the loop lets the last of them stand.
\<close>

definition names_index :: "(string \<Rightarrow> int option) \<Rightarrow> jsval \<Rightarrow> nat \<Rightarrow> bool" where
  "names_index s2n entry i =
     (to_number s2n (js_or (js_get entry ''sceneNumber'') (JNum 0)) = Some (int i + 1))"

definition last_naming :: "(string \<Rightarrow> int option) \<Rightarrow> jsval list \<Rightarrow> nat \<Rightarrow> jsval option" where
  "last_naming s2n entries i = find (\<lambda>entry. names_index s2n entry i) (rev entries)"

text \<open>
  A call is skipped when its tag is none of the five tools, or when it is one of the four
  tools with a required argument and that argument is missing: absent, or falsy as
  \<open>null\<close>, the empty string, \<open>0\<close> and \<open>false\<close> are.
\<close>

definition call_args :: "jsval \<Rightarrow> jsval" where
  "call_args fc = js_or (js_get fc ''args'') (JObj [])"

definition tool_names :: "string list" where
  "tool_names = [''generateMovieScript'', ''translateNarrations'', ''generateYouTubeTitle'',
                 ''generateYouTubeDescription'', ''generateYouTubeThumbnail'']"

definition unknown_tag :: "jsval \<Rightarrow> bool" where
  "unknown_tag fc = (js_get fc ''name'' \<notin> set (map JStr tool_names))"

definition required_argument :: "string \<Rightarrow> string option" where
  "required_argument tool =
     map_of [(''generateMovieScript'', ''scenes''), (''translateNarrations'', ''targetLanguage''),
             (''generateYouTubeTitle'', ''title''), (''generateYouTubeDescription'', ''description'')]
       tool"

definition missing_required :: "jsval \<Rightarrow> bool" where
  "missing_required fc =
     (case js_get fc ''name'' of
        JStr tool \<Rightarrow>
          (case required_argument tool of
             Some key \<Rightarrow> \<not> truthy (js_get (call_args fc) key)
           | None \<Rightarrow> False)
      | _ \<Rightarrow> False)"

definition skipped :: "jsval \<Rightarrow> bool" where
  "skipped fc = (unknown_tag fc \<or> missing_required fc)"


section \<open>Example data\<close>

text \<open>
  Concrete scenes, states, calls and surroundings on which the theorems below are
  evaluated. The example surroundings read no string as a number (the examples' scene
  numbers are numbers) and have a thumbnail generator that throws \<open>failure\<close>, or returns
  an image when \<open>failure\<close> is \<open>None\<close>. Their \<open>JSON.parse\<close> is given by \<open>table\<close>,
  which lists texts with the values \<open>JSON.parse\<close> has on them; every other text that an
  example hands to it is not JSON. The example remote translation answers every request
  with the text \<open>answer\<close>.
\<close>

definition example_scene :: "54 word \<Rightarrow> string \<Rightarrow> string \<Rightarrow> string \<Rightarrow> scene" where
  "example_scene n d t tr =
     \<lparr> sceneNumber = JNum n, description = JStr d, narration = JStr t,
       narrationTranslated = JStr tr, imageBlob = Some (Blob (unat n)), audioBlob = None \<rparr>"

definition example_host :: "scene list \<Rightarrow> host" where
  "example_host ss =
     \<lparr> scenes = ss, projectName = None, showTranslated = False, youtubeTitle = JStr [],
       youtubeDescription = JStr [], youtubeThumbnailBlob = None, assistantContent = [] \<rparr>"

definition example_env :: "(string \<times> jsval) list \<Rightarrow> string option \<Rightarrow> env" where
  "example_env table failure =
     \<lparr> json_parse = map_of table,
       string_to_number = Map.empty,
       genThumbnail = (\<lambda>i prompt blobs modelId. case failure of Some m \<Rightarrow> Inl m | None \<Rightarrow> Inr (Blob i)),
       getProjectName = (\<lambda>i. ''video_20260101_120000'') \<rparr>"

definition example_remote :: "string option \<Rightarrow> string list \<Rightarrow> string \<Rightarrow> exn + string option" where
  "example_remote answer narrations targetLanguageLabel = Inr answer"

definition tool_call :: "string \<Rightarrow> (string \<times> jsval) list \<Rightarrow> jsval" where
  "tool_call name args = JObj [(''name'', JStr name), (''args'', JObj args)]"

definition two_scenes :: "scene list" where
  "two_scenes =
     [example_scene 1 ''A hero wakes'' ''[excited] Today is the day'' ''old one'',
      example_scene 2 ''The road'' ''[whispering] Go'' ''old two'']"

text \<open>
  Two answers of the remote translation: a JSON array of two strings inside a Markdown
  code fence, and the bare text of that array, with the value \<open>JSON.parse\<close> has on it.
\<close>

definition french_answer :: string where
  \<open>french_answer = ''["[excited] Aujourd'hui est le jour", "[whispering] Allez"]''\<close>

definition french_array :: jsval where
  "french_array = JArr [JStr ''[excited] Aujourd'hui est le jour'', JStr ''[whispering] Allez'']"

definition fenced_french_answer :: string where
  "fenced_french_answer = fence @ ''json\<newline>'' @ french_answer @ ''\<newline>'' @ fence"

text \<open>
  A reply of the assistant that carries a script as text, the bracketed part of it, and the
  value \<open>JSON.parse\<close> has on that part.
\<close>

definition script_reply :: string where
  \<open>script_reply = ''Here you go: [{"description":"d","narration":"n"}]''\<close>

definition script_json :: string where
  \<open>script_json = ''[{"description":"d","narration":"n"}]''\<close>

definition script_value :: jsval where
  "script_value = JArr [JObj [(''description'', JStr ''d''), (''narration'', JStr ''n'')]]"

definition text_part :: "string \<Rightarrow> part" where
  "text_part t = \<lparr> partText = Some t, partFunctionCall = JUndefined \<rparr>"

section \<open>Lemmas on the translation updates\<close>

lemma length_flat_update: "length (flat_update translated prev) = length prev"
  by (simp add: flat_update_def)

lemma nth_flat_update:
  "i < length prev \<Longrightarrow>
     flat_update translated prev ! i
       = (prev ! i)\<lparr>narrationTranslated := coalesce (js_nth translated i) (JStr [])\<rparr>"
  by (simp add: flat_update_def nth_enumerate_eq)

lemma find_snoc:
  "find P (xs @ [x]) = (case find P xs of Some y \<Rightarrow> Some y | None \<Rightarrow> if P x then Some x else None)"
  by (induction xs) auto

lemma last_naming_Cons:
  "last_naming s2n (s # ss) i =
     (case last_naming s2n ss i of
        Some e \<Rightarrow> Some e
      | None \<Rightarrow> if names_index s2n s i then Some s else None)"
  by (simp add: last_naming_def find_snoc)

lemma sparse_loop_total:
  "\<forall>entry\<in>set entries. \<not> nullish entry \<Longrightarrow> \<exists>res. sparse_loop s2n entries next = Inr res"
  by (induction entries arbitrary: "next") (auto simp: Let_def split: option.splits)

lemma sparse_loop_length:
  "sparse_loop s2n entries next = Inr res \<Longrightarrow> length res = length next"
proof (induction entries arbitrary: "next")
  case Nil
  then show ?case by simp
next
  case (Cons s ss)
  then show ?case
    by (fastforce simp: Let_def split: if_splits option.splits)
qed

lemma sparse_loop_nth:
  "sparse_loop s2n entries next = Inr res \<Longrightarrow> i < length next \<Longrightarrow>
     res ! i =
       (case last_naming s2n entries i of
          Some entry \<Rightarrow> (next ! i)\<lparr>narrationTranslated := coalesce (js_get entry ''narration'') (JStr [])\<rparr>
        | None \<Rightarrow> next ! i)"
proof (induction entries arbitrary: "next")
  case Nil
  then show ?case by (simp add: last_naming_def)
next
  case (Cons s ss)
  from Cons.prems(1) have nn: "\<not> nullish s"
    by (auto split: if_splits)
  show ?case
  proof (cases "to_number s2n (js_or (js_get s ''sceneNumber'') (JNum 0))")
    case None
    with Cons.prems nn have run: "sparse_loop s2n ss next = Inr res" by simp
    from None have "\<not> names_index s2n s i" by (simp add: names_index_def)
    with Cons.IH[OF run Cons.prems(2)] show ?thesis
      by (simp add: last_naming_Cons split: option.splits)
  next
    case (Some n)
    show ?thesis
    proof (cases "0 \<le> n - 1 \<and> n - 1 < int (length next)")
      case False
      with Cons.prems nn Some have run: "sparse_loop s2n ss next = Inr res"
        by (auto simp: Let_def split: if_splits)
      from False Some Cons.prems(2) have "\<not> names_index s2n s i"
        by (auto simp: names_index_def)
      with Cons.IH[OF run Cons.prems(2)] show ?thesis
        by (simp add: last_naming_Cons split: option.splits)
    next
      case True
      define next' where
        "next' = next[nat (n - 1) := (next ! nat (n - 1))
                   \<lparr>narrationTranslated := coalesce (js_get s ''narration'') (JStr [])\<rparr>]"
      from True Cons.prems nn Some have run: "sparse_loop s2n ss next' = Inr res"
        by (auto simp: Let_def next'_def split: if_splits)
      have len: "i < length next'" using Cons.prems(2) by (simp add: next'_def)
      have named: "names_index s2n s i \<longleftrightarrow> i = nat (n - 1)"
        using Some True by (auto simp: names_index_def)
      show ?thesis
      proof (cases "i = nat (n - 1)")
        case True
        then have "next' ! i = (next ! i)\<lparr>narrationTranslated := coalesce (js_get s ''narration'') (JStr [])\<rparr>"
          using Cons.prems(2) by (simp add: next'_def)
        with Cons.IH[OF run len] named True show ?thesis
          by (simp add: last_naming_Cons split: option.splits)
      next
        case False
        then have "next' ! i = next ! i" by (simp add: next'_def)
        with Cons.IH[OF run len] named False show ?thesis
          by (simp add: last_naming_Cons split: option.splits)
      qed
    qed
  qed
qed

lemma sparse_update_length:
  "sparse_update s2n entries prev = Inr res \<Longrightarrow> length res = length prev"
  by (auto simp: sparse_update_def dest: sparse_loop_length)

lemma sparse_update_nth:
  assumes "sparse_update s2n entries prev = Inr res" and "i < length prev"
  shows "res ! i =
           (prev ! i)\<lparr>narrationTranslated :=
              (case last_naming s2n entries i of
                 Some entry \<Rightarrow> coalesce (js_get entry ''narration'') (JStr [])
               | None \<Rightarrow> JStr [])\<rparr>"
proof -
  from assms have "res ! i =
       (case last_naming s2n entries i of
          Some entry \<Rightarrow> (map (\<lambda>s. s\<lparr>narrationTranslated := JStr []\<rparr>) prev ! i)
                          \<lparr>narrationTranslated := coalesce (js_get entry ''narration'') (JStr [])\<rparr>
        | None \<Rightarrow> map (\<lambda>s. s\<lparr>narrationTranslated := JStr []\<rparr>) prev ! i)"
    unfolding sparse_update_def by (intro sparse_loop_nth) simp_all
  with assms(2) show ?thesis
    by (simp split: option.splits)
qed

lemma handleChatTranslateNarrations_cases:
  assumes "handleChatTranslateNarrations s2n args h = Inr h'"
  obtains (flat) "h' = h\<lparr>scenes := flat_update (elems (js_get args ''translatedNarrations'')) (scenes h),
                          showTranslated := True\<rparr>"
    | (sparse) res where "sparse_update s2n (elems (js_get args ''scenes'')) (scenes h) = Inr res"
        and "h' = h\<lparr>scenes := res, showTranslated := True\<rparr>"
    | (thrown) "h' = h\<lparr>showTranslated := True\<rparr>"
    | (none) "h' = h"
proof -
  define A where "A \<longleftrightarrow> isArray (js_get args ''translatedNarrations'')
                       \<and> elems (js_get args ''translatedNarrations'') \<noteq> []"
  define B where "B \<longleftrightarrow> isArray (js_get args ''scenes'') \<and> elems (js_get args ''scenes'') \<noteq> []"
  have run: "(if A then Inr (h\<lparr>scenes := flat_update (elems (js_get args ''translatedNarrations'')) (scenes h),
                               showTranslated := True\<rparr>)
              else if B then Inr (h\<lparr>scenes := (case sparse_update s2n (elems (js_get args ''scenes'')) (scenes h) of
                                                  Inl e \<Rightarrow> scenes h
                                                | Inr next \<Rightarrow> next),
                                    showTranslated := True\<rparr>)
              else Inr h) = (Inr h' :: exn + host)"
  proof -
    from assms have nn: "\<not> nullish args"
      by (auto simp: handleChatTranslateNarrations_def)
    have eq: "handleChatTranslateNarrations s2n args h
            = (if A then Inr (h\<lparr>scenes := flat_update (elems (js_get args ''translatedNarrations'')) (scenes h),
                               showTranslated := True\<rparr>)
              else if B then Inr (h\<lparr>scenes := (case sparse_update s2n (elems (js_get args ''scenes'')) (scenes h) of
                                                  Inl e \<Rightarrow> scenes h
                                                | Inr next \<Rightarrow> next),
                                    showTranslated := True\<rparr>)
              else Inr h)"
      unfolding handleChatTranslateNarrations_def Let_def A_def B_def
      by (rule if_not_P [OF nn])
    show ?thesis
      using assms unfolding eq .
  qed
  show ?thesis
  proof (cases A)
    case True
    with run show ?thesis by (intro flat) simp
  next
    case notA: False
    show ?thesis
    proof (cases B)
      case False
      with notA run show ?thesis by (intro none) simp
    next
      case True
      show ?thesis
      proof (cases "sparse_update s2n (elems (js_get args ''scenes'')) (scenes h)")
        case (Inl e)
        with run notA True have "h' = h\<lparr>showTranslated := True\<rparr>" by auto
        then show ?thesis by (rule thrown)
      next
        case (Inr res)
        with run notA True have "h' = h\<lparr>scenes := res, showTranslated := True\<rparr>" by simp
        with Inr show ?thesis by (rule sparse)
      qed
    qed
  qed
qed

lemma handleChatTranslateNarrations_length:
  assumes "handleChatTranslateNarrations s2n args h = Inr h'"
  shows "length (scenes h') = length (scenes h)"
  using assms
  by (cases rule: handleChatTranslateNarrations_cases)
     (simp_all add: length_flat_update sparse_update_length)

lemma handleChatTranslateNarrations_nth:
  assumes "handleChatTranslateNarrations s2n args h = Inr h'" and "i < length (scenes h)"
  shows "\<exists>v. scenes h' ! i = (scenes h ! i)\<lparr>narrationTranslated := v\<rparr>"
  using assms(1)
proof (cases rule: handleChatTranslateNarrations_cases)
  case flat
  with assms(2) have "scenes h' ! i = (scenes h ! i)
      \<lparr>narrationTranslated := coalesce (js_nth (elems (js_get args ''translatedNarrations'')) i) (JStr [])\<rparr>"
    by (simp add: nth_flat_update)
  then show ?thesis ..
next
  case (sparse res)
  with sparse_update_nth[OF sparse(1) assms(2)]
  have "scenes h' ! i = (scenes h ! i)
      \<lparr>narrationTranslated :=
         (case last_naming s2n (elems (js_get args ''scenes'')) i of
            Some entry \<Rightarrow> coalesce (js_get entry ''narration'') (JStr [])
          | None \<Rightarrow> JStr [])\<rparr>"
    by simp
  then show ?thesis ..
next
  case thrown
  have "scenes h ! i = (scenes h ! i)\<lparr>narrationTranslated := narrationTranslated (scenes h ! i)\<rparr>"
    by simp
  with thrown show ?thesis by (metis host.select_convs(1) host.surjective host.update_convs(3))
next
  case none
  have "scenes h ! i = (scenes h ! i)\<lparr>narrationTranslated := narrationTranslated (scenes h ! i)\<rparr>"
    by simp
  with none show ?thesis by metis
qed

section \<open>The script context (C7, C10)\<close>






section \<open>Applying a translation (C9, C5, C3)\<close>

text \<open>
  C9. Whatever the arguments of a TranslateNarrations effect are, flat or sparse, the
  handler leaves the number of scenes and, in every scene, the scene number, the
  description, the narration, the image and the audio as they were. The handler returns
  whenever the arguments are an object and no entry of the sparse list is \<open>null\<close> or
  \<open>undefined\<close>.
\<close>

theorem translation_changes_only_translation:
  "(\<forall>h'. handleChatTranslateNarrations s2n args h = Inr h' \<longrightarrow>
        length (scenes h') = length (scenes h)
        \<and> (\<forall>i<length (scenes h).
              sceneNumber (scenes h' ! i) = sceneNumber (scenes h ! i)
              \<and> description (scenes h' ! i) = description (scenes h ! i)
              \<and> narration (scenes h' ! i) = narration (scenes h ! i)
              \<and> imageBlob (scenes h' ! i) = imageBlob (scenes h ! i)
              \<and> audioBlob (scenes h' ! i) = audioBlob (scenes h ! i)))
   \<and> (\<not> nullish args \<and> (\<forall>entry\<in>set (elems (js_get args ''scenes'')). \<not> nullish entry) \<longrightarrow>
        (\<exists>h'. handleChatTranslateNarrations s2n args h = Inr h'))"
proof (intro conjI allI impI)
  fix h' i
  assume run: "handleChatTranslateNarrations s2n args h = Inr h'"
  then show "length (scenes h') = length (scenes h)"
    by (rule handleChatTranslateNarrations_length)
  assume "i < length (scenes h)"
  with run obtain v where "scenes h' ! i = (scenes h ! i)\<lparr>narrationTranslated := v\<rparr>"
    using handleChatTranslateNarrations_nth by blast
  then show "sceneNumber (scenes h' ! i) = sceneNumber (scenes h ! i)"
    and "description (scenes h' ! i) = description (scenes h ! i)"
    and "narration (scenes h' ! i) = narration (scenes h ! i)"
    and "imageBlob (scenes h' ! i) = imageBlob (scenes h ! i)"
    and "audioBlob (scenes h' ! i) = audioBlob (scenes h ! i)"
    by simp_all
next
  assume a: "\<not> nullish args \<and> (\<forall>entry\<in>set (elems (js_get args ''scenes'')). \<not> nullish entry)"
  then obtain res where
    "sparse_update s2n (elems (js_get args ''scenes'')) (scenes h) = Inr res"
    unfolding sparse_update_def using sparse_loop_total by blast
  with a show "\<exists>h'. handleChatTranslateNarrations s2n args h = Inr h'"
    by (simp add: handleChatTranslateNarrations_def Let_def)
qed

theorem translation_changes_only_translation_witness:
  "elems (js_get
        (JObj [(''targetLanguage'', JStr ''French''),
               (''scenes'', JArr [JObj [(''sceneNumber'', JNum 2), (''narration'', JStr ''[whispering] Allez'')]])])
        ''scenes'')
     = [JObj [(''sceneNumber'', JNum 2), (''narration'', JStr ''[whispering] Allez'')]]
   \<and> \<not> nullish (JObj [(''sceneNumber'', JNum 2), (''narration'', JStr ''[whispering] Allez'')])
   \<and> (\<exists>h'. handleChatTranslateNarrations Map.empty
          (JObj [(''targetLanguage'', JStr ''French''),
                 (''scenes'', JArr [JObj [(''sceneNumber'', JNum 2), (''narration'', JStr ''[whispering] Allez'')]])])
          (example_host two_scenes) = Inr h'
        \<and> length (scenes h') = 2
        \<and> sceneNumber (scenes h' ! 1) = JNum 2
        \<and> description (scenes h' ! 1) = JStr ''The road''
        \<and> narration (scenes h' ! 1) = JStr ''[whispering] Go''
        \<and> imageBlob (scenes h' ! 1) = Some (Blob 2)
        \<and> audioBlob (scenes h' ! 1) = None)"
proof -
  let ?args = "JObj [(''targetLanguage'', JStr ''French''),
                     (''scenes'', JArr [JObj [(''sceneNumber'', JNum 2), (''narration'', JStr ''[whispering] Allez'')]])]"
  note frame = translation_changes_only_translation
    [where ?s2n.0 = Map.empty and args = ?args and h = "example_host two_scenes"]
  have entries: "\<not> nullish ?args \<and> (\<forall>entry\<in>set (elems (js_get ?args ''scenes'')). \<not> nullish entry)"
    by (simp add: nullish_def)
  with frame obtain h' where
    run: "handleChatTranslateNarrations Map.empty ?args (example_host two_scenes) = Inr h'"
    by blast
  with frame have "length (scenes h') = length (scenes (example_host two_scenes))"
    and "\<forall>i<length (scenes (example_host two_scenes)).
           sceneNumber (scenes h' ! i) = sceneNumber (scenes (example_host two_scenes) ! i)
           \<and> description (scenes h' ! i) = description (scenes (example_host two_scenes) ! i)
           \<and> narration (scenes h' ! i) = narration (scenes (example_host two_scenes) ! i)
           \<and> imageBlob (scenes h' ! i) = imageBlob (scenes (example_host two_scenes) ! i)
           \<and> audioBlob (scenes h' ! i) = audioBlob (scenes (example_host two_scenes) ! i)"
    by blast+
  then have "length (scenes h') = 2
      \<and> sceneNumber (scenes h' ! 1) = JNum 2
      \<and> description (scenes h' ! 1) = JStr ''The road''
      \<and> narration (scenes h' ! 1) = JStr ''[whispering] Go''
      \<and> imageBlob (scenes h' ! 1) = Some (Blob 2)
      \<and> audioBlob (scenes h' ! 1) = None"
    by (simp add: example_host_def two_scenes_def example_scene_def)
  moreover have "elems (js_get ?args ''scenes'')
        = [JObj [(''sceneNumber'', JNum 2), (''narration'', JStr ''[whispering] Allez'')]]"
    and "\<not> nullish (JObj [(''sceneNumber'', JNum 2), (''narration'', JStr ''[whispering] Allez'')])"
    by (simp_all add: nullish_def)
  ultimately show ?thesis
    using run by blast
qed




text \<open>
  C3, as stated, fails: with two scenes and a flat array of one translated string, sending
  the message ends without an error, the effect is applied, and both scenes change: the
  first takes the string, the second loses its earlier translation to the empty string.
\<close>

theorem flat_length_mismatch_counterexample:
  "sendAssistantMessage (example_env [] None) True
     \<lparr> functionCalls = Some [tool_call ''translateNarrations''
          [(''targetLanguage'', JStr ''French''), (''translatedNarrations'', JArr [JStr ''Bonjour''])]],
       parts = [] \<rparr>
     two_scenes (example_host two_scenes)
   = Inr (\<lparr> replyText = ''I've translated the narrations to French. The narration boxes are updated.'',
             functionCalled = True \<rparr>,
          \<lparr> scenes = [example_scene 1 ''A hero wakes'' ''[excited] Today is the day'' ''Bonjour'',
                      example_scene 2 ''The road'' ''[whispering] Go'' []],
            projectName = None, showTranslated = True, youtubeTitle = JStr [],
            youtubeDescription = JStr [], youtubeThumbnailBlob = None,
            assistantContent = ''I've translated the narrations to French. The narration boxes are updated.'' \<rparr>)
   \<and> [example_scene 1 ''A hero wakes'' ''[excited] Today is the day'' ''Bonjour'',
       example_scene 2 ''The road'' ''[whispering] Go'' []] \<noteq> two_scenes"
  by (simp add: sendAssistantMessage_def response_calls_def tool_call_def call_step_def
      handleChatTranslateNarrations_def flat_update_def js_nth_def coalesce_def nullish_def js_or_def
      first_text_def translate_sentence_def example_host_def two_scenes_def example_scene_def
      example_env_def Let_def)

text \<open>
  C3, amended: a non-empty flat array of any length is applied without an error. The
  scene at position \<open>i\<close> takes the array's entry at \<open>i\<close> when the array reaches that
  far and the entry is not \<open>null\<close>, and the empty string otherwise; entries beyond the
  last scene are ignored; nothing else of a scene changes.
\<close>

theorem flat_translation_pads:
  assumes "js_get args ''translatedNarrations'' = JArr translated"
    and "translated \<noteq> []"
  shows "\<exists>h'. handleChatTranslateNarrations s2n args h = Inr h'
           \<and> length (scenes h') = length (scenes h)
           \<and> (\<forall>i<length (scenes h).
                 scenes h' ! i
                   = (scenes h ! i)\<lparr>narrationTranslated :=
                        (if i < length translated \<and> \<not> nullish (translated ! i)
                         then translated ! i else JStr [])\<rparr>)"
proof -
  from assms(1) have "\<not> nullish args"
    by (auto simp: nullish_def)
  with assms have run:
    "handleChatTranslateNarrations s2n args h
       = Inr (h\<lparr>scenes := flat_update translated (scenes h), showTranslated := True\<rparr>)"
    by (simp add: handleChatTranslateNarrations_def Let_def)
  have "flat_update translated (scenes h) ! i
          = (scenes h ! i)\<lparr>narrationTranslated :=
               (if i < length translated \<and> \<not> nullish (translated ! i)
                then translated ! i else JStr [])\<rparr>" if "i < length (scenes h)" for i
    using that by (simp add: nth_flat_update js_nth_def coalesce_def nullish_def)
  then show ?thesis
    using run by (simp add: length_flat_update)
qed

theorem flat_translation_pads_witness:
  "js_get (JObj [(''targetLanguage'', JStr ''French''), (''translatedNarrations'', JArr [JStr ''Bonjour''])])
      ''translatedNarrations'' = JArr [JStr ''Bonjour'']
   \<and> (\<exists>h'. handleChatTranslateNarrations Map.empty
          (JObj [(''targetLanguage'', JStr ''French''), (''translatedNarrations'', JArr [JStr ''Bonjour''])])
          (example_host two_scenes) = Inr h'
        \<and> scenes h' = [example_scene 1 ''A hero wakes'' ''[excited] Today is the day'' ''Bonjour'',
                        example_scene 2 ''The road'' ''[whispering] Go'' []])"
proof -
  let ?args = "JObj [(''targetLanguage'', JStr ''French''), (''translatedNarrations'', JArr [JStr ''Bonjour''])]"
  have arg: "js_get ?args ''translatedNarrations'' = JArr [JStr ''Bonjour'']"
    by simp
  have "\<exists>h'. handleChatTranslateNarrations Map.empty ?args (example_host two_scenes) = Inr h'
           \<and> length (scenes h') = length (scenes (example_host two_scenes))
           \<and> (\<forall>i<length (scenes (example_host two_scenes)).
                 scenes h' ! i
                   = (scenes (example_host two_scenes) ! i)\<lparr>narrationTranslated :=
                        (if i < length [JStr ''Bonjour''] \<and> \<not> nullish ([JStr ''Bonjour''] ! i)
                         then [JStr ''Bonjour''] ! i else JStr [])\<rparr>)"
    by (rule flat_translation_pads [OF arg]) simp
  then obtain h' where
    run: "handleChatTranslateNarrations Map.empty ?args (example_host two_scenes) = Inr h'"
    and len: "length (scenes h') = length (scenes (example_host two_scenes))"
    and each: "\<And>i. i < length (scenes (example_host two_scenes)) \<Longrightarrow>
                 scenes h' ! i
                   = (scenes (example_host two_scenes) ! i)\<lparr>narrationTranslated :=
                        (if i < length [JStr ''Bonjour''] \<and> \<not> nullish ([JStr ''Bonjour''] ! i)
                         then [JStr ''Bonjour''] ! i else JStr [])\<rparr>"
    by blast
  have two: "length (scenes h') = 2"
    using len by (simp add: example_host_def two_scenes_def)
  have first: "scenes h' ! 0 = example_scene 1 ''A hero wakes'' ''[excited] Today is the day'' ''Bonjour''"
    using each[of 0] by (simp add: example_host_def two_scenes_def example_scene_def nullish_def)
  have second: "scenes h' ! 1 = example_scene 2 ''The road'' ''[whispering] Go'' []"
    using each[of 1] by (simp add: example_host_def two_scenes_def example_scene_def)
  have "scenes h' = [scenes h' ! 0, scenes h' ! 1]"
    using two by (cases "scenes h'"; cases "tl (scenes h')") auto
  with first second have "scenes h' = [example_scene 1 ''A hero wakes'' ''[excited] Today is the day'' ''Bonjour'',
                        example_scene 2 ''The road'' ''[whispering] Go'' []]"
    by simp
  with arg run show ?thesis
    by blast
qed

section \<open>Batch translation (C2, C8)\<close>

text \<open>
  C2. Whatever the remote call answers, a result of \<open>translateNarrationsBatch\<close> has as
  many strings as there were narrations: for a non-empty input it is the answer's array,
  entry by entry in the answer's order. An answer with another number of entries makes the
  call fail with the error that reports both counts. With the key configured, the empty
  input gives the empty result.
\<close>

theorem translateNarrationsBatch_length:
  "(\<forall>result. translateNarrationsBatch jp remote ai narrations lang = Inr result \<longrightarrow>
        length result = length narrations
        \<and> (narrations \<noteq> [] \<longrightarrow>
             (\<exists>t parsed. remote narrations lang = Inr (Some t)
                \<and> jp (trim (strip_fences (trim t))) = Some parsed
                \<and> result = map string_of_item (as_array parsed))))
   \<and> (\<forall>t parsed. ai \<and> narrations \<noteq> [] \<and> remote narrations lang = Inr (Some t) \<and> trim t \<noteq> []
          \<and> jp (trim (strip_fences (trim t))) = Some parsed
          \<and> length (as_array parsed) \<noteq> length narrations \<longrightarrow>
        translateNarrationsBatch jp remote ai narrations lang
          = Inl (Error (''Translation returned '' @ show_nat (length (as_array parsed))
                        @ '' items, expected '' @ show_nat (length narrations))))
   \<and> (ai \<longrightarrow> translateNarrationsBatch jp remote ai [] lang = Inr [])"
proof (intro conjI allI impI)
  fix result
  assume run: "translateNarrationsBatch jp remote ai narrations lang = Inr result"
  show "length result = length narrations"
    using run
    by (auto simp: translateNarrationsBatch_def Let_def
             split: if_splits sum.splits option.splits)
  assume "narrations \<noteq> []"
  with run show "\<exists>t parsed. remote narrations lang = Inr (Some t)
                \<and> jp (trim (strip_fences (trim t))) = Some parsed
                \<and> result = map string_of_item (as_array parsed)"
    by (auto simp: translateNarrationsBatch_def Let_def
             split: if_splits sum.splits option.splits)
next
  fix t parsed
  assume "ai \<and> narrations \<noteq> [] \<and> remote narrations lang = Inr (Some t) \<and> trim t \<noteq> []
          \<and> jp (trim (strip_fences (trim t))) = Some parsed
          \<and> length (as_array parsed) \<noteq> length narrations"
  then show "translateNarrationsBatch jp remote ai narrations lang
          = Inl (Error (''Translation returned '' @ show_nat (length (as_array parsed))
                        @ '' items, expected '' @ show_nat (length narrations)))"
    by (simp add: translateNarrationsBatch_def Let_def)
next
  assume ai
  then show "translateNarrationsBatch jp remote ai [] lang = Inr []"
    by (simp add: translateNarrationsBatch_def)
qed

lemma cleaned_fenced_french_answer:
  "trim fenced_french_answer \<noteq> []
   \<and> trim (strip_fences (trim fenced_french_answer)) = french_answer"
  by (simp add: fenced_french_answer_def french_answer_def fence_def trim_def is_space_def
      fence_match_def)

lemma cleaned_null_array:
  "trim ''[null]'' \<noteq> [] \<and> trim (strip_fences (trim ''[null]'')) = ''[null]''"
  by (simp add: fence_def trim_def is_space_def fence_match_def)



lemma show_nat_digit: "n < 10 \<Longrightarrow> show_nat n = [digit_char n]"
  by (subst show_nat.simps) simp

theorem translateNarrationsBatch_length_witness:
  "translateNarrationsBatch (map_of [(french_answer, french_array)])
       (example_remote (Some fenced_french_answer)) True
       [''[excited] Today is the day'', ''[whispering] Go''] ''French''
     = Inr [''[excited] Aujourd'hui est le jour'', ''[whispering] Allez'']
   \<and> length [''[excited] Aujourd'hui est le jour'', ''[whispering] Allez'']
     = length [''[excited] Today is the day'', ''[whispering] Go'']
   \<and> translateNarrationsBatch (map_of [(''[null]'', JArr [JNull])])
       (example_remote (Some ''[null]'')) True
       [''[excited] Today is the day'', ''[whispering] Go''] ''French''
     = Inl (Error ''Translation returned 1 items, expected 2'')
   \<and> translateNarrationsBatch (map_of [(''[null]'', JArr [JNull])])
       (example_remote (Some ''[null]'')) True [] ''French'' = Inr []"
proof -
  let ?ns = "[''[excited] Today is the day'', ''[whispering] Go'']"
  note len = translateNarrationsBatch_length
  have run: "translateNarrationsBatch (map_of [(french_answer, french_array)])
       (example_remote (Some fenced_french_answer)) True ?ns ''French''
     = Inr [''[excited] Aujourd'hui est le jour'', ''[whispering] Allez'']"
    by (simp add: translateNarrationsBatch_def example_remote_def cleaned_fenced_french_answer
        french_array_def Let_def)
  have same: "length [''[excited] Aujourd'hui est le jour'', ''[whispering] Allez''] = length ?ns"
    using len [where jp = "map_of [(french_answer, french_array)]"
        and remote = "example_remote (Some fenced_french_answer)" and ai = True
        and narrations = ?ns and lang = "''French''", THEN conjunct1, rule_format, OF run]
    by blast
  have "translateNarrationsBatch (map_of [(''[null]'', JArr [JNull])])
       (example_remote (Some ''[null]'')) True ?ns ''French''
     = Inl (Error (''Translation returned '' @ show_nat (length (as_array (JArr [JNull])))
                        @ '' items, expected '' @ show_nat (length ?ns)))"
    by (rule len [THEN conjunct2, THEN conjunct1, rule_format, where t = "''[null]''"])
       (simp add: example_remote_def cleaned_null_array)
  then have short: "translateNarrationsBatch (map_of [(''[null]'', JArr [JNull])])
       (example_remote (Some ''[null]'')) True ?ns ''French''
     = Inl (Error ''Translation returned 1 items, expected 2'')"
    by (simp add: show_nat_digit digit_char_def)
  have none: "translateNarrationsBatch (map_of [(''[null]'', JArr [JNull])])
       (example_remote (Some ''[null]'')) True [] ''French'' = Inr []"
    by (rule len [THEN conjunct2, THEN conjunct2, rule_format]) simp
  from run same short none show ?thesis
    by blast
qed




section \<open>The fallback extractor (C6)\<close>

lemma call_step_json_parse:
  "call_step (e\<lparr>json_parse := jp\<rparr>) sceneList i fc st = call_step e sceneList i fc st"
proof -
  have others: "getProjectName (e\<lparr>json_parse := jp\<rparr>) = getProjectName e"
    "string_to_number (e\<lparr>json_parse := jp\<rparr>) = string_to_number e"
    "genThumbnail (e\<lparr>json_parse := jp\<rparr>) = genThumbnail e"
    by simp_all
  show ?thesis
    unfolding call_step_def others by (rule refl)
qed

lemma call_loop_json_parse:
  "call_loop (e\<lparr>json_parse := jp\<rparr>) sceneList i fcs st = call_loop e sceneList i fcs st"
  by (induction fcs arbitrary: i st) (simp_all add: call_step_json_parse split: sum.splits)

lemma has_content_not_nullish: "has_content x \<Longrightarrow> \<not> nullish x"
  by (auto simp: has_content_def nullish_def)

lemma map_exn_initialScene:
  "\<forall>x\<in>set xs. \<not> nullish x \<Longrightarrow> \<exists>ss. map_exn initialScene xs = Inr ss \<and> length ss = length xs"
  by (induction xs) (auto simp: initialScene_def)

lemma has_content_iff:
  "has_content x \<longleftrightarrow> truthy x \<and> (truthy (js_get x ''description'') \<or> truthy (js_get x ''narration''))"
  by (auto simp: has_content_def js_or_def)

lemma tryParseScriptFromText_Some:
  "tryParseScriptFromText jp text = Some v \<longleftrightarrow>
     (\<exists>m parsed. trim text \<noteq> [] \<and> bracket_match (trim (strip_fences text)) = Some m
        \<and> jp m = Some parsed
        \<and> filter has_content (as_array parsed) \<noteq> []
        \<and> v = JObj [(''scenes'', JArr (filter has_content (as_array parsed)))])"
  by (auto simp: tryParseScriptFromText_def Let_def split: option.splits)

text \<open>
  C6. When the response has tool calls, the result of \<open>sendAssistantMessage\<close> is the
  same whatever the text of the response and whatever \<open>JSON.parse\<close> would make of it:
  the extractor plays no part. The extractor gives \<open>null\<close> when \<open>JSON.parse\<close> fails
  on the bracketed part; it gives a result exactly when the text has a bracketed part that
  parses and some recovered element is truthy with a truthy description or narration (for
  text fields: a non-empty one), and the result is then the array of those elements. With
  no tool calls, such a result is passed once to the script handler, which replaces the
  scenes by the normalised elements, and \<open>null\<close> leaves the state alone and shows the text.
\<close>

theorem fallback_extractor:
  "(response_calls r \<noteq> [] \<and> response_calls r' = response_calls r \<longrightarrow>
      sendAssistantMessage (e\<lparr>json_parse := jp\<rparr>) chat r' sceneList h
        = sendAssistantMessage e chat r sceneList h)
   \<and> (\<forall>m. bracket_match (trim (strip_fences body)) = Some m \<and> jp m = None \<longrightarrow>
         tryParseScriptFromText jp body = None)
   \<and> (tryParseScriptFromText jp body \<noteq> None \<longleftrightarrow>
         (\<exists>m parsed. trim body \<noteq> [] \<and> bracket_match (trim (strip_fences body)) = Some m
            \<and> jp m = Some parsed
            \<and> (\<exists>x\<in>set (as_array parsed).
                  truthy x \<and> (truthy (js_get x ''description'') \<or> truthy (js_get x ''narration'')))))
   \<and> (\<forall>v. tryParseScriptFromText jp body = Some v \<longrightarrow>
         (\<exists>m parsed. bracket_match (trim (strip_fences body)) = Some m \<and> jp m = Some parsed
            \<and> v = JObj [(''scenes'',
                   JArr (filter (\<lambda>x. truthy x \<and> (truthy (js_get x ''description'')
                                              \<or> truthy (js_get x ''narration'')))
                          (as_array parsed)))]))
   \<and> (\<forall>parsed. chat \<and> response_calls r = []
          \<and> tryParseScriptFromText (json_parse e) (response_text r) = Some parsed \<longrightarrow>
         (\<exists>ss. map_exn initialScene (elems (js_get parsed ''scenes'')) = Inr ss
            \<and> sendAssistantMessage e chat r sceneList h
                = Inr (\<lparr> replyText = ''I've added the script to your scene editor.'',
                          functionCalled = True \<rparr>,
                       h\<lparr>scenes := ss, projectName := Some (getProjectName e 0),
                         assistantContent := script_sentence\<rparr>)))
   \<and> (chat \<and> response_calls r = []
          \<and> tryParseScriptFromText (json_parse e) (response_text r) = None \<longrightarrow>
         sendAssistantMessage e chat r sceneList h
           = Inr (\<lparr> replyText = response_text r, functionCalled = False \<rparr>,
                  h\<lparr>assistantContent := response_text r\<rparr>))"
proof (intro conjI allI impI)
  assume "response_calls r \<noteq> [] \<and> response_calls r' = response_calls r"
  then show "sendAssistantMessage (e\<lparr>json_parse := jp\<rparr>) chat r' sceneList h
        = sendAssistantMessage e chat r sceneList h"
    by (simp add: sendAssistantMessage_def call_loop_json_parse)
next
  fix m
  assume "bracket_match (trim (strip_fences body)) = Some m \<and> jp m = None"
  then show "tryParseScriptFromText jp body = None"
    by (simp add: tryParseScriptFromText_def Let_def)
next
  have "filter has_content xs \<noteq> [] \<longleftrightarrow>
          (\<exists>x\<in>set xs. truthy x \<and> (truthy (js_get x ''description'') \<or> truthy (js_get x ''narration'')))"
    for xs
    by (simp add: filter_empty_conv has_content_iff)
  then show "tryParseScriptFromText jp body \<noteq> None \<longleftrightarrow>
         (\<exists>m parsed. trim body \<noteq> [] \<and> bracket_match (trim (strip_fences body)) = Some m
            \<and> jp m = Some parsed
            \<and> (\<exists>x\<in>set (as_array parsed).
                  truthy x \<and> (truthy (js_get x ''description'') \<or> truthy (js_get x ''narration''))))"
    using tryParseScriptFromText_Some [of jp body] by (metis not_Some_eq)
next
  fix v
  assume "tryParseScriptFromText jp body = Some v"
  then obtain m parsed where "bracket_match (trim (strip_fences body)) = Some m"
    and "jp m = Some parsed"
    and "v = JObj [(''scenes'', JArr (filter has_content (as_array parsed)))]"
    unfolding tryParseScriptFromText_Some by blast
  moreover have "has_content = (\<lambda>x. truthy x \<and> (truthy (js_get x ''description'')
                                              \<or> truthy (js_get x ''narration'')))"
    by (simp add: fun_eq_iff has_content_iff)
  ultimately show "\<exists>m parsed. bracket_match (trim (strip_fences body)) = Some m \<and> jp m = Some parsed
            \<and> v = JObj [(''scenes'',
                   JArr (filter (\<lambda>x. truthy x \<and> (truthy (js_get x ''description'')
                                              \<or> truthy (js_get x ''narration'')))
                          (as_array parsed)))]"
    by auto
next
  fix parsed
  assume a: "chat \<and> response_calls r = []
          \<and> tryParseScriptFromText (json_parse e) (response_text r) = Some parsed"
  then obtain found where parsed: "parsed = JObj [(''scenes'', JArr (filter has_content found))]"
    unfolding tryParseScriptFromText_Some by blast
  have "\<forall>x\<in>set (filter has_content found). \<not> nullish x"
    by (simp add: has_content_not_nullish)
  then obtain ss where ss: "map_exn initialScene (filter has_content found) = Inr ss"
    using map_exn_initialScene by blast
  with a parsed have "sendAssistantMessage e chat r sceneList h
                = Inr (\<lparr> replyText = ''I've added the script to your scene editor.'',
                          functionCalled = True \<rparr>,
                       h\<lparr>scenes := ss, projectName := Some (getProjectName e 0),
                         assistantContent := script_sentence\<rparr>)"
    by (simp add: sendAssistantMessage_def handleAssistantScript_def)
  with ss parsed show "\<exists>ss. map_exn initialScene (elems (js_get parsed ''scenes'')) = Inr ss
            \<and> sendAssistantMessage e chat r sceneList h
                = Inr (\<lparr> replyText = ''I've added the script to your scene editor.'',
                          functionCalled = True \<rparr>,
                       h\<lparr>scenes := ss, projectName := Some (getProjectName e 0),
                         assistantContent := script_sentence\<rparr>)"
    by simp
next
  assume "chat \<and> response_calls r = []
          \<and> tryParseScriptFromText (json_parse e) (response_text r) = None"
  then show "sendAssistantMessage e chat r sceneList h
           = Inr (\<lparr> replyText = response_text r, functionCalled = False \<rparr>,
                  h\<lparr>assistantContent := response_text r\<rparr>)"
    by (simp add: sendAssistantMessage_def)
qed

lemma script_reply_match:
  "trim script_reply = script_reply \<and> script_reply \<noteq> []
   \<and> bracket_match (trim (strip_fences script_reply)) = Some script_json"
  by (simp add: script_reply_def script_json_def fence_def trim_def is_space_def
      fence_match_def bracket_match_def)

lemma script_reply_extracted:
  "tryParseScriptFromText (map_of [(script_json, script_value)]) script_reply
     = Some (JObj [(''scenes'', script_value)])"
  using script_reply_match
  by (simp add: tryParseScriptFromText_def Let_def script_value_def has_content_def js_or_def)

theorem fallback_extractor_witness:
  "sendAssistantMessage (example_env [(script_json, script_value)] None) True
       \<lparr> functionCalls = None, parts = [text_part script_reply] \<rparr> [] (example_host [])
     = Inr (\<lparr> replyText = ''I've added the script to your scene editor.'', functionCalled = True \<rparr>,
            (example_host [\<lparr> sceneNumber = JNum 0, description = JStr ''d'', narration = JStr ''n'',
                              narrationTranslated = JStr [], imageBlob = None, audioBlob = None \<rparr>])
              \<lparr>projectName := Some ''video_20260101_120000'', assistantContent := script_sentence\<rparr>)
   \<and> tryParseScriptFromText (map_of [(script_json, script_value)]) script_reply
     = Some (JObj [(''scenes'', script_value)])
   \<and> tryParseScriptFromText Map.empty ''[oops]'' = None
   \<and> tryParseScriptFromText (map_of [(''[{}]'', JArr [JObj []])]) ''[{}]'' = None
   \<and> sendAssistantMessage (example_env [(script_json, script_value)] None) True
       \<lparr> functionCalls = Some [tool_call ''generateYouTubeTitle'' [(''title'', JStr ''Dawn'')]],
         parts = [text_part script_reply] \<rparr> [] (example_host [])
     = sendAssistantMessage (example_env [] None) True
       \<lparr> functionCalls = Some [tool_call ''generateYouTubeTitle'' [(''title'', JStr ''Dawn'')]],
         parts = [] \<rparr> [] (example_host [])"
proof -
  let ?e = "example_env [(script_json, script_value)] None"
  let ?r = "\<lparr> functionCalls = None, parts = [text_part script_reply] \<rparr>"
  let ?calls = "[tool_call ''generateYouTubeTitle'' [(''title'', JStr ''Dawn'')]]"
  note fallback = fallback_extractor
  have none: "response_calls ?r = []"
    by (simp add: response_calls_def text_part_def)
  have shown: "response_text ?r = script_reply"
    using script_reply_match by (simp add: response_text_def text_part_def)
  have parser: "json_parse ?e = map_of [(script_json, script_value)]"
    by (simp add: example_env_def)
  have "\<exists>ss. map_exn initialScene (elems (js_get (JObj [(''scenes'', script_value)]) ''scenes'')) = Inr ss
            \<and> sendAssistantMessage ?e True ?r [] (example_host [])
                = Inr (\<lparr> replyText = ''I've added the script to your scene editor.'',
                          functionCalled = True \<rparr>,
                       (example_host [])\<lparr>scenes := ss, projectName := Some (getProjectName ?e 0),
                         assistantContent := script_sentence\<rparr>)"
    by (rule fallback [where body = "[]" and jp = Map.empty and r' = ?r,
          THEN conjunct2, THEN conjunct2, THEN conjunct2, THEN conjunct2, THEN conjunct1, rule_format])
       (use script_reply_extracted in \<open>simp add: none shown parser\<close>)
  then have first: "sendAssistantMessage ?e True ?r [] (example_host [])
     = Inr (\<lparr> replyText = ''I've added the script to your scene editor.'', functionCalled = True \<rparr>,
            (example_host [\<lparr> sceneNumber = JNum 0, description = JStr ''d'', narration = JStr ''n'',
                              narrationTranslated = JStr [], imageBlob = None, audioBlob = None \<rparr>])
              \<lparr>projectName := Some ''video_20260101_120000'', assistantContent := script_sentence\<rparr>)"
    by (auto simp: script_value_def initialScene_def nullish_def coalesce_def example_host_def
        example_env_def)
  have bad: "tryParseScriptFromText Map.empty ''[oops]'' = None"
    by (rule fallback [where r = ?r and r' = ?r and e = ?e,
          THEN conjunct2, THEN conjunct1, rule_format, where m = "''[oops]''"])
       (simp add: fence_def trim_def is_space_def fence_match_def bracket_match_def)
  have hollow: "tryParseScriptFromText (map_of [(''[{}]'', JArr [JObj []])]) ''[{}]'' = None"
    by (simp add: tryParseScriptFromText_def fence_def trim_def is_space_def fence_match_def
        bracket_match_def has_content_def js_or_def Let_def)
  have "sendAssistantMessage ((example_env [] None)\<lparr>json_parse := map_of [(script_json, script_value)]\<rparr>) True
       \<lparr> functionCalls = Some ?calls, parts = [text_part script_reply] \<rparr> [] (example_host [])
     = sendAssistantMessage (example_env [] None) True
       \<lparr> functionCalls = Some ?calls, parts = [] \<rparr> [] (example_host [])"
    by (rule fallback [where body = "[]" and jp = "map_of [(script_json, script_value)]",
          THEN conjunct1, rule_format])
       (simp add: response_calls_def)
  moreover have "(example_env [] None)\<lparr>json_parse := map_of [(script_json, script_value)]\<rparr> = ?e"
    by (simp add: example_env_def)
  ultimately have calls: "sendAssistantMessage ?e True
       \<lparr> functionCalls = Some ?calls, parts = [text_part script_reply] \<rparr> [] (example_host [])
     = sendAssistantMessage (example_env [] None) True
       \<lparr> functionCalls = Some ?calls, parts = [] \<rparr> [] (example_host [])"
    by simp
  from first script_reply_extracted bad hollow calls show ?thesis
    by blast
qed

section \<open>Dispatching a batch of tool calls (C1, C4)\<close>

lemma skipped_cases:
  "skipped fc \<longleftrightarrow>
     \<not> (js_get fc ''name'' = JStr ''generateMovieScript'' \<and> truthy (js_get (call_args fc) ''scenes''))
     \<and> \<not> (js_get fc ''name'' = JStr ''translateNarrations'' \<and> truthy (js_get (call_args fc) ''targetLanguage''))
     \<and> \<not> (js_get fc ''name'' = JStr ''generateYouTubeTitle'' \<and> truthy (js_get (call_args fc) ''title''))
     \<and> \<not> (js_get fc ''name'' = JStr ''generateYouTubeDescription'' \<and> truthy (js_get (call_args fc) ''description''))
     \<and> js_get fc ''name'' \<noteq> JStr ''generateYouTubeThumbnail''"
  by (cases "js_get fc ''name''")
     (auto simp: skipped_def unknown_tag_def missing_required_def required_argument_def tool_names_def)

lemma skipped_step:
  assumes "skipped fc"
  shows "call_step e sceneList i fc st = Inr st"
proof -
  from assms have no_branch:
    "\<not> (js_get fc ''name'' = JStr ''generateMovieScript''
         \<and> truthy (js_get (js_or (js_get fc ''args'') (JObj [])) ''scenes''))"
    "\<not> (js_get fc ''name'' = JStr ''translateNarrations''
         \<and> truthy (js_get (js_or (js_get fc ''args'') (JObj [])) ''targetLanguage''))"
    "\<not> (js_get fc ''name'' = JStr ''generateYouTubeTitle''
         \<and> truthy (js_get (js_or (js_get fc ''args'') (JObj [])) ''title''))"
    "\<not> (js_get fc ''name'' = JStr ''generateYouTubeDescription''
         \<and> truthy (js_get (js_or (js_get fc ''args'') (JObj [])) ''description''))"
    "js_get fc ''name'' \<noteq> JStr ''generateYouTubeThumbnail''"
    by (simp_all add: skipped_cases call_args_def)
  show ?thesis
    unfolding call_step_def Let_def
    by (simp only: no_branch if_False prod.collapse)
qed



lemma call_loop_skipped_prefix:
  "\<forall>x\<in>set pre. skipped x \<Longrightarrow>
     call_loop e sceneList i (pre @ rest) st = call_loop e sceneList (i + length pre) rest st"
  by (induction pre arbitrary: i) (simp_all add: skipped_step)



lemma thumbnail_failure_step:
  assumes "js_get fc ''name'' = JStr ''generateYouTubeThumbnail''"
    and "thumbnail_prompt (js_get (call_args fc) ''prompt'') (script_summary sceneList) = Inr p"
    and "genThumbnail e i p (scene_blobs sceneList) (thumbnail_model (call_args fc)) = Inl m"
  shows "call_step e sceneList i fc (c, h) = Inr (first_text c (thumbnail_failed_sentence m), h)"
  using assms by (simp add: call_step_def call_args_def Let_def)




text \<open>
  C1, as stated, fails: when a title call is followed by a thumbnail call whose generation
  throws, the batch runs to its end and the title is set, but the reply is the title's
  confirmation and the failure sentence appears nowhere.
\<close>

theorem failure_not_surfaced_counterexample:
  "sendAssistantMessage (example_env [] (Some ''No image in response'')) True
     \<lparr> functionCalls = Some [tool_call ''generateYouTubeTitle'' [(''title'', JStr ''Dawn'')],
                              tool_call ''generateYouTubeThumbnail'' []],
       parts = [] \<rparr>
     two_scenes (example_host two_scenes)
   = Inr (\<lparr> replyText = ''I've generated a YouTube title. Check the YouTube metadata section.'',
             functionCalled = True \<rparr>,
          (example_host two_scenes)
            \<lparr> youtubeTitle := JStr ''Dawn'',
              assistantContent := ''I've generated a YouTube title. Check the YouTube metadata section.'' \<rparr>)
   \<and> thumbnail_failed_sentence ''No image in response''
     = ''Thumbnail generation failed: No image in response.''"
  by (simp add: sendAssistantMessage_def response_calls_def tool_call_def call_step_def
      thumbnail_prompt_def js_or_def first_text_def title_sentence_def
      thumbnail_failed_sentence_def example_host_def example_env_def Let_def)

text \<open>
  C1, amended. A skipped call leaves the confirmation text and the state as they are, and
  the loop goes on with the calls after it; so a batch of skipped calls ends without an
  error and without an effect. A thumbnail call whose prompt is usable and whose generation
  throws leaves the state as it is, offers its failure sentence to the confirmation text,
  which takes it only if no earlier call of the batch has set a sentence, and the loop
  goes on with the calls after it.
\<close>

theorem dispatch_isolation:
  "(skipped fc \<longrightarrow>
      call_loop e sceneList i (fc # rest) (c, h) = call_loop e sceneList (Suc i) rest (c, h))
   \<and> (\<forall>p m. js_get fc ''name'' = JStr ''generateYouTubeThumbnail''
          \<and> thumbnail_prompt (js_get (call_args fc) ''prompt'') (script_summary sceneList) = Inr p
          \<and> genThumbnail e i p (scene_blobs sceneList) (thumbnail_model (call_args fc)) = Inl m \<longrightarrow>
        call_loop e sceneList i (fc # rest) (c, h)
          = call_loop e sceneList (Suc i) rest
              (if c = [] then thumbnail_failed_sentence m else c, h))
   \<and> ((\<forall>x\<in>set fcs. skipped x) \<longrightarrow> call_loop e sceneList i fcs (c, h) = Inr (c, h))"
proof (intro conjI allI impI)
  assume "skipped fc"
  then show "call_loop e sceneList i (fc # rest) (c, h) = call_loop e sceneList (Suc i) rest (c, h)"
    by (simp add: skipped_step)
next
  fix p m
  assume "js_get fc ''name'' = JStr ''generateYouTubeThumbnail''
          \<and> thumbnail_prompt (js_get (call_args fc) ''prompt'') (script_summary sceneList) = Inr p
          \<and> genThumbnail e i p (scene_blobs sceneList) (thumbnail_model (call_args fc)) = Inl m"
  then have "call_step e sceneList i fc (c, h) = Inr (first_text c (thumbnail_failed_sentence m), h)"
    by (blast intro: thumbnail_failure_step)
  then show "call_loop e sceneList i (fc # rest) (c, h)
          = call_loop e sceneList (Suc i) rest
              (if c = [] then thumbnail_failed_sentence m else c, h)"
    by (simp add: first_text_def)
next
  assume all: "\<forall>x\<in>set fcs. skipped x"
  have "call_loop e sceneList i (fcs @ []) (c, h) = call_loop e sceneList (i + length fcs) [] (c, h)"
    using all by (rule call_loop_skipped_prefix)
  then show "call_loop e sceneList i fcs (c, h) = Inr (c, h)"
    by simp
qed

theorem dispatch_isolation_witness:
  "call_loop (example_env [] None) two_scenes 1
       [tool_call ''generateMovieScript'' [],
        tool_call ''generateYouTubeDescription'' [(''description'', JStr ''A day'')]]
       (title_sentence, example_host two_scenes)
     = Inr (title_sentence, (example_host two_scenes)\<lparr>youtubeDescription := JStr ''A day''\<rparr>)
   \<and> call_loop (example_env [] (Some ''No image in response'')) two_scenes 0
       [tool_call ''generateYouTubeThumbnail'' [],
        tool_call ''generateYouTubeDescription'' [(''description'', JStr ''A day'')]]
       ([], example_host two_scenes)
     = Inr (''Thumbnail generation failed: No image in response.'',
            (example_host two_scenes)\<lparr>youtubeDescription := JStr ''A day''\<rparr>)
   \<and> call_loop (example_env [] None) two_scenes 0
       [tool_call ''dance'' [], tool_call ''generateYouTubeTitle'' [(''title'', JStr [])]]
       ([], example_host two_scenes)
     = Inr ([], example_host two_scenes)
   \<and> sendAssistantMessage (example_env [] None) True
       \<lparr> functionCalls = Some [tool_call ''generateYouTubeTitle'' [(''title'', JStr ''Dawn'')],
                                tool_call ''generateMovieScript'' [],
                                tool_call ''generateYouTubeDescription'' [(''description'', JStr ''A day'')]],
         parts = [] \<rparr>
       two_scenes (example_host two_scenes)
     = Inr (\<lparr> replyText = ''I've generated a YouTube title. Check the YouTube metadata section.'',
               functionCalled = True \<rparr>,
            (example_host two_scenes)
              \<lparr> youtubeTitle := JStr ''Dawn'', youtubeDescription := JStr ''A day'',
                assistantContent := ''I've generated a YouTube title. Check the YouTube metadata section.'' \<rparr>)"
proof -
  let ?h = "example_host two_scenes"
  let ?describe = "tool_call ''generateYouTubeDescription'' [(''description'', JStr ''A day'')]"
  let ?failing = "example_env [] (Some ''No image in response'')"
  note isolation = dispatch_isolation
  have describe: "call_loop e two_scenes i [?describe] (c, ?h)
                    = Inr (if c = [] then description_sentence else c,
                           ?h\<lparr>youtubeDescription := JStr ''A day''\<rparr>)" for e i c
    by (simp add: call_step_def tool_call_def js_or_def first_text_def Let_def)
  have "skipped (tool_call ''generateMovieScript'' [])"
    by (simp add: skipped_cases tool_call_def call_args_def js_or_def)
  then have "call_loop (example_env [] None) two_scenes 1
               [tool_call ''generateMovieScript'' [], ?describe] (title_sentence, ?h)
             = call_loop (example_env [] None) two_scenes (Suc 1) [?describe] (title_sentence, ?h)"
    by (rule isolation [where fcs = "[]", THEN conjunct1, rule_format])
  then have malformed: "call_loop (example_env [] None) two_scenes 1
               [tool_call ''generateMovieScript'' [], ?describe] (title_sentence, ?h)
             = Inr (title_sentence, ?h\<lparr>youtubeDescription := JStr ''A day''\<rparr>)"
    by (simp only: describe) (simp add: title_sentence_def)
  have "call_loop ?failing two_scenes 0 [tool_call ''generateYouTubeThumbnail'' [], ?describe] ([], ?h)
          = call_loop ?failing two_scenes (Suc 0) [?describe]
              (if [] = ([] :: string) then thumbnail_failed_sentence ''No image in response'' else [], ?h)"
    by (rule isolation [where fcs = "[]", THEN conjunct2, THEN conjunct1, rule_format,
          where p = "script_summary two_scenes"])
       (simp add: tool_call_def call_args_def js_or_def thumbnail_prompt_def example_env_def)
  then have thrown: "call_loop ?failing two_scenes 0
               [tool_call ''generateYouTubeThumbnail'' [], ?describe] ([], ?h)
             = Inr (''Thumbnail generation failed: No image in response.'',
                    ?h\<lparr>youtubeDescription := JStr ''A day''\<rparr>)"
    by (simp only: describe) (simp add: thumbnail_failed_sentence_def)
  have skips: "call_loop (example_env [] None) two_scenes 0
       [tool_call ''dance'' [], tool_call ''generateYouTubeTitle'' [(''title'', JStr [])]] ([], ?h)
     = Inr ([], ?h)"
    by (rule isolation [where fc = JNull and rest = "[]", THEN conjunct2, THEN conjunct2, rule_format])
       (auto simp: skipped_cases tool_call_def call_args_def js_or_def)
  have batch: "sendAssistantMessage (example_env [] None) True
       \<lparr> functionCalls = Some [tool_call ''generateYouTubeTitle'' [(''title'', JStr ''Dawn'')],
                                tool_call ''generateMovieScript'' [], ?describe],
         parts = [] \<rparr>
       two_scenes ?h
     = Inr (\<lparr> replyText = ''I've generated a YouTube title. Check the YouTube metadata section.'',
               functionCalled = True \<rparr>,
            ?h\<lparr> youtubeTitle := JStr ''Dawn'', youtubeDescription := JStr ''A day'',
                assistantContent := ''I've generated a YouTube title. Check the YouTube metadata section.'' \<rparr>)"
    by (simp add: sendAssistantMessage_def response_calls_def tool_call_def call_step_def
        js_or_def first_text_def title_sentence_def example_host_def Let_def)
  from malformed thrown skips batch show ?thesis
    by blast
qed


























end
